theory Spec2Isabelle
  imports Main "HOL-Library.Sublist"
begin

section \<open>Data model\<close>

text \<open>
  A video item is the dictionary the API returns. Only the keys the program reads are
  modelled: \<^verbatim>\<open>snippet\<close> (itself a dictionary with \<^verbatim>\<open>title\<close> and
  \<^verbatim>\<open>publishedAt\<close>) and \<^verbatim>\<open>id\<close>. A key that is absent is \<open>None\<close>, which is
  what \<^verbatim>\<open>dict.get\<close> returns for it. The remaining keys (statistics, content details)
  are never read and are carried in \<open>other_fields\<close>.
\<close>

record snippet_dict =
  title :: "string option"
  publishedAt :: "string option"

record video =
  snippet :: "snippet_dict option"
  video_id :: "string option"
  other_fields :: "(string \<times> string) list"

text \<open>
  The exceptions that can travel through the program. \<open>ValueError\<close> and \<open>HttpError\<close>
  carry the text that \<^verbatim>\<open>str(e)\<close> gives, because the program prints it.
  \<open>ServerNotFoundError\<close> is the transport library's error for a host that cannot be
  reached; it is not a subclass of \<open>HttpError\<close>.
\<close>

datatype exn =
    ValueError string
  | TypeError
  | OverflowError
  | HttpError string
  | ServerNotFoundError

text \<open>
  A \<^verbatim>\<open>datetime\<close> value is either naive (no zone) or aware. An aware value is
  represented by its UTC instant, a naive one by its wall-clock reading; both count
  microseconds from 0001-01-01T00:00:00, the smallest \<^verbatim>\<open>datetime\<close>.
\<close>

datatype datetime = Naive int | Aware int

text \<open>
  \<^verbatim>\<open>datetime.datetime.fromisoformat\<close> belongs to the standard library, so the filter
  takes it as a parameter: \<open>Inl msg\<close> is \<^verbatim>\<open>ValueError(msg)\<close>, the only exception
  it raises on a string argument.
\<close>

type_synonym iso_parser = "string \<Rightarrow> string + datetime"

section \<open>Configuration constants\<close>

definition API_SERVICE_NAME :: string where
  "API_SERVICE_NAME = ''youtube''"

definition API_VERSION :: string where
  "API_VERSION = ''v3''"

definition DEFAULT_REGION_CODE :: string where
  "DEFAULT_REGION_CODE = ''US''"

definition HOURS_TO_FILTER :: int where
  "HOURS_TO_FILTER = 12"

definition MAX_RESULTS_TO_FETCH :: int where
  "MAX_RESULTS_TO_FETCH = 25"

section \<open>Time arithmetic of the standard library\<close>

definition US_PER_HOUR :: int where
  "US_PER_HOUR = 3600000000"

definition US_PER_DAY :: int where
  "US_PER_DAY = 86400000000"

text \<open>Ordinal of 9999-12-31, the last day a \<^verbatim>\<open>datetime\<close> can hold.\<close>

definition MAX_ORDINAL :: int where
  "MAX_ORDINAL = 3652059"

text \<open>
  \<^verbatim>\<open>timedelta(hours=h)\<close>: the duration in microseconds; \<^verbatim>\<open>OverflowError\<close> when
  the number of days leaves the range of magnitude 999999999.
\<close>

definition timedelta_hours :: "int \<Rightarrow> exn + int" where
  "timedelta_hours h =
     (let us = h * US_PER_HOUR; days = us div US_PER_DAY
      in if - 999999999 \<le> days \<and> days \<le> 999999999 then Inr us else Inl OverflowError)"

text \<open>
  \<^verbatim>\<open>dt - delta\<close> on an aware \<^verbatim>\<open>datetime\<close>: \<^verbatim>\<open>OverflowError\<close> when the result
  is not between year 1 and year 9999.
\<close>

definition datetime_sub :: "int \<Rightarrow> int \<Rightarrow> exn + int" where
  "datetime_sub t delta =
     (let r = t - delta
      in if 0 \<le> r \<and> r < MAX_ORDINAL * US_PER_DAY then Inr r else Inl OverflowError)"

section \<open>The time filter\<close>

text \<open>\<^verbatim>\<open>s.endswith('Z')\<close> and the rewrite \<^verbatim>\<open>s[:-1] + '+00:00'\<close>.\<close>

definition endswith_Z :: "string \<Rightarrow> bool" where
  "endswith_Z s = (s \<noteq> [] \<and> last s = CHR ''Z'')"

definition rewrite_Z :: "string \<Rightarrow> string" where
  "rewrite_Z s = (if endswith_Z s then butlast s @ ''+00:00'' else s)"

definition QUOTE :: string where
  "QUOTE = [CHR 0x27]"

text \<open>The line printed in the \<^verbatim>\<open>except ValueError\<close> branch.\<close>

definition parse_error_line :: "string \<Rightarrow> video \<Rightarrow> string \<Rightarrow> string" where
  "parse_error_line published_at_str v e =
     ''Error parsing date string '' @ QUOTE @ published_at_str @ QUOTE
     @ '' for video ID '' @ QUOTE
     @ (case video_id v of None \<Rightarrow> ''N/A'' | Some i \<Rightarrow> i) @ QUOTE
     @ '': '' @ e"

text \<open>
  \<^verbatim>\<open>video.get("snippet", {}).get("publishedAt")\<close>: \<open>None\<close> when either key is
  absent.
\<close>

definition get_publishedAt :: "video \<Rightarrow> string option" where
  "get_publishedAt v = (case snippet v of None \<Rightarrow> None | Some sn \<Rightarrow> publishedAt sn)"

text \<open>
  The loop of \<^verbatim>\<open>filter_videos_by_time\<close>. The state is the list built so far and the
  lines printed so far. Comparing a naive \<^verbatim>\<open>datetime\<close> with the aware threshold raises
  \<^verbatim>\<open>TypeError\<close>, which the \<^verbatim>\<open>except ValueError\<close> clause does not catch: the loop
  stops there and the exception leaves the function, after the lines already printed.
\<close>

fun filter_loop ::
  "iso_parser \<Rightarrow> int \<Rightarrow> video list \<Rightarrow> video list \<Rightarrow> string list
     \<Rightarrow> (exn + video list) \<times> string list" where
  "filter_loop fromiso time_threshold [] filtered_videos out = (Inr filtered_videos, out)"
| "filter_loop fromiso time_threshold (v # videos) filtered_videos out =
     (case get_publishedAt v of
        None \<Rightarrow> filter_loop fromiso time_threshold videos filtered_videos out
      | Some s \<Rightarrow>
          if s = [] then filter_loop fromiso time_threshold videos filtered_videos out
          else
            (let published_at_str = rewrite_Z s in
             case fromiso published_at_str of
               Inl e \<Rightarrow>
                 filter_loop fromiso time_threshold videos filtered_videos
                   (out @ [parse_error_line published_at_str v e])
             | Inr (Naive t) \<Rightarrow> (Inl TypeError, out)
             | Inr (Aware t) \<Rightarrow>
                 if t \<ge> time_threshold
                 then filter_loop fromiso time_threshold videos (filtered_videos @ [v]) out
                 else filter_loop fromiso time_threshold videos filtered_videos out))"

text \<open>
  \<^verbatim>\<open>filter_videos_by_time(videos, hours=None)\<close>. The clock reading \<open>now\<close> (an aware
  UTC instant) is an input. The result is what the function returns or raises, paired
  with the lines it printed.
\<close>

definition filter_videos_by_time ::
  "iso_parser \<Rightarrow> int \<Rightarrow> video list \<Rightarrow> int option \<Rightarrow> (exn + video list) \<times> string list" where
  "filter_videos_by_time fromiso now videos hours_opt =
     (let hours = (case hours_opt of None \<Rightarrow> HOURS_TO_FILTER | Some h \<Rightarrow> h) in
      case timedelta_hours hours of
        Inl e \<Rightarrow> (Inl e, [])
      | Inr delta \<Rightarrow>
          (case datetime_sub now delta of
             Inl e \<Rightarrow> (Inl e, [])
           | Inr time_threshold \<Rightarrow> filter_loop fromiso time_threshold videos [] []))"

section \<open>Formatting values as text\<close>

text \<open>\<^verbatim>\<open>str(n)\<close> for an integer, as the f-strings format it.\<close>

function str_nat :: "nat \<Rightarrow> string" where
  "str_nat n =
     (if n < 10 then [''0123456789'' ! n]
      else str_nat (n div 10) @ [''0123456789'' ! (n mod 10)])"
  by pat_completeness auto
termination
  by (relation "measure (\<lambda>n. n)") auto

definition str_int :: "int \<Rightarrow> string" where
  "str_int i = (if i < 0 then ''-'' @ str_nat (nat (- i)) else str_nat (nat i))"

text \<open>
  \<^verbatim>\<open>repr(s)\<close> for a string, which the library's error text uses: the string between
  single quotes, or between double quotes when it holds a single quote and no double
  quote; a backslash and the enclosing quote are escaped, and so are the control
  characters. Characters beyond ASCII are copied.
\<close>

definition repr_char :: "char \<Rightarrow> char \<Rightarrow> string" where
  "repr_char q c =
     (if c = q \<or> c = CHR 0x5C then [CHR 0x5C, c]
      else if c = CHR 0x0A then [CHR 0x5C, CHR ''n'']
      else if c = CHR 0x0D then [CHR 0x5C, CHR ''r'']
      else if c = CHR 0x09 then [CHR 0x5C, CHR ''t'']
      else if (of_char c :: nat) < 32 \<or> (of_char c :: nat) = 127
      then [CHR 0x5C, CHR ''x'', ''0123456789abcdef'' ! ((of_char c :: nat) div 16),
            ''0123456789abcdef'' ! ((of_char c :: nat) mod 16)]
      else [c])"

definition py_repr :: "string \<Rightarrow> string" where
  "py_repr s =
     (let q = (if CHR 0x27 \<in> set s \<and> CHR 0x22 \<notin> set s then CHR 0x22 else CHR 0x27)
      in [q] @ concat (map (repr_char q) s) @ [q])"

text \<open>
  \<^verbatim>\<open>repr\<close> of a \<^verbatim>\<open>timedelta\<close> of at least a day in magnitude, given in
  microseconds: the normalised days, seconds and microseconds, those of the last two
  that are not zero.
\<close>

definition timedelta_repr :: "int \<Rightarrow> string" where
  "timedelta_repr us =
     (let days = us div 86400000000; rest = us mod 86400000000;
          seconds = rest div 1000000; micro = rest mod 1000000
      in ''datetime.timedelta(days='' @ str_int days
         @ (if seconds = 0 then [] else '', seconds='' @ str_int seconds)
         @ (if micro = 0 then [] else '', microseconds='' @ str_int micro)
         @ '')'')"

section \<open>A model of \<^verbatim>\<open>datetime.fromisoformat\<close>\<close>

text \<open>
  The standard library's parser as Python 3.7 to 3.10 have it, for the format they
  document: \<^verbatim>\<open>YYYY-MM-DD[*HH[:MM[:SS[.fff[fff]]]][+HH:MM[:SS[.ffffff]]]]\<close>, where
  \<^verbatim>\<open>*\<close> is any single character. A string outside the format, or with a field out
  of range, is a \<^verbatim>\<open>ValueError\<close>. Python 3.11 and later read more of ISO 8601 (a
  fraction of any length, for one) and refuse a date followed by the separator alone,
  which the earlier versions read as midnight; on the timestamps with a date, a time
  to the second and an offset \<^verbatim>\<open>+HH:MM\<close>, which are the ones evaluated below, all
  versions agree. The model is used wherever a concrete timestamp is evaluated; the
  general theorems hold for every parser.
\<close>

definition is_digit :: "char \<Rightarrow> bool" where
  "is_digit c = (48 \<le> (of_char c :: int) \<and> (of_char c :: int) \<le> 57)"

definition digit_val :: "char \<Rightarrow> int" where
  "digit_val c = of_char c - 48"

text \<open>The number written by the \<open>n\<close> digits of \<open>s\<close> from position \<open>pos\<close>, if they are digits.\<close>

definition digits_at :: "string \<Rightarrow> nat \<Rightarrow> nat \<Rightarrow> int option" where
  "digits_at s pos n =
     (let d = take n (drop pos s)
      in if length d = n \<and> 0 < n \<and> list_all is_digit d
         then Some (foldl (\<lambda>a c. 10 * a + digit_val c) 0 d) else None)"

text \<open>\<^verbatim>\<open>str.find\<close> for one character: the first index, if any.\<close>

fun str_find :: "char \<Rightarrow> string \<Rightarrow> nat option" where
  "str_find c [] = None"
| "str_find c (x # xs) =
     (if x = c then Some 0 else (case str_find c xs of None \<Rightarrow> None | Some i \<Rightarrow> Some (Suc i)))"

definition is_leap :: "int \<Rightarrow> bool" where
  "is_leap y = (y mod 4 = 0 \<and> (y mod 100 \<noteq> 0 \<or> y mod 400 = 0))"

definition days_in_month :: "int \<Rightarrow> int \<Rightarrow> int" where
  "days_in_month y m =
     (if m = 2 then (if is_leap y then 29 else 28)
      else if m = 4 \<or> m = 6 \<or> m = 9 \<or> m = 11 then 30 else 31)"

definition days_before_year :: "int \<Rightarrow> int" where
  "days_before_year y = (let p = y - 1 in p * 365 + p div 4 - p div 100 + p div 400)"

definition days_before_month :: "int \<Rightarrow> int \<Rightarrow> int" where
  "days_before_month y m = sum_list (map (days_in_month y) [1..m - 1])"

text \<open>The ordinal of a date: 0001-01-01 is day 1.\<close>

definition ymd2ord :: "int \<Rightarrow> int \<Rightarrow> int \<Rightarrow> int" where
  "ymd2ord y m d = days_before_year y + days_before_month y m + d"

text \<open>Microseconds from 0001-01-01T00:00:00 of a wall-clock reading.\<close>

definition wall_us :: "int \<Rightarrow> int \<Rightarrow> int \<Rightarrow> int \<Rightarrow> int \<Rightarrow> int \<Rightarrow> int \<Rightarrow> int" where
  "wall_us y m d hh mm ss ff =
     ((ymd2ord y m d - 1) * 86400 + hh * 3600 + mm * 60 + ss) * 1000000 + ff"

text \<open>\<^verbatim>\<open>HH[:MM[:SS[.fff[fff]]]]\<close>: the strings of length 2, 5, 8, 12 and 15.\<close>

definition parse_hh_mm_ss_ff :: "string \<Rightarrow> (int \<times> int \<times> int \<times> int) option" where
  "parse_hh_mm_ss_ff tstr =
     (let n = length tstr in
      if n \<noteq> 2 \<and> n \<noteq> 5 \<and> n \<noteq> 8 \<and> n \<noteq> 12 \<and> n \<noteq> 15 then None
      else (case digits_at tstr 0 2 of None \<Rightarrow> None | Some hh \<Rightarrow>
        (if n = 2 then Some (hh, 0, 0, 0)
         else if tstr ! 2 \<noteq> CHR '':'' then None
         else (case digits_at tstr 3 2 of None \<Rightarrow> None | Some mm \<Rightarrow>
           (if n = 5 then Some (hh, mm, 0, 0)
            else if tstr ! 5 \<noteq> CHR '':'' then None
            else (case digits_at tstr 6 2 of None \<Rightarrow> None | Some ss \<Rightarrow>
              (if n = 8 then Some (hh, mm, ss, 0)
               else if tstr ! 8 \<noteq> CHR ''.'' then None
               else (case digits_at tstr 9 (n - 9) of None \<Rightarrow> None | Some ff \<Rightarrow>
                 Some (hh, mm, ss, if n = 12 then ff * 1000 else ff)))))))))"

text \<open>\<^verbatim>\<open>YYYY-MM-DD\<close>, a string of length exactly 10.\<close>

definition parse_isoformat_date :: "string \<Rightarrow> (int \<times> int \<times> int) option" where
  "parse_isoformat_date dstr =
     (if length dstr \<noteq> 10 \<or> dstr ! 4 \<noteq> CHR ''-'' \<or> dstr ! 7 \<noteq> CHR ''-'' then None
      else (case digits_at dstr 0 4 of None \<Rightarrow> None | Some y \<Rightarrow>
        (case digits_at dstr 5 2 of None \<Rightarrow> None | Some m \<Rightarrow>
          (case digits_at dstr 8 2 of None \<Rightarrow> None | Some d \<Rightarrow> Some (y, m, d)))))"

text \<open>
  The zone part after the sign, \<^verbatim>\<open>HH:MM[:SS[.ffffff]]\<close> (length 5, 8 or 15), as an
  offset in microseconds.
\<close>

definition parse_tz :: "string \<Rightarrow> int option" where
  "parse_tz tzstr =
     (let k = length tzstr in
      if k \<noteq> 5 \<and> k \<noteq> 8 \<and> k \<noteq> 15 then None
      else (case parse_hh_mm_ss_ff tzstr of
              None \<Rightarrow> None
            | Some (h, m, s, f) \<Rightarrow> Some ((h * 3600 + m * 60 + s) * 1000000 + f)))"

text \<open>
  The time part after the separator: the clock fields and, when a sign is present, the
  signed zone offset. The sign searched first is \<^verbatim>\<open>-\<close>, then \<^verbatim>\<open>+\<close>, as the
  library does. \<open>None\<close> is a string outside the format.
\<close>

definition parse_isoformat_time ::
  "string \<Rightarrow> ((int \<times> int \<times> int \<times> int) \<times> int option) option" where
  "parse_isoformat_time tstr =
     (case (case str_find CHR ''-'' tstr of Some i \<Rightarrow> Some i
            | None \<Rightarrow> str_find CHR ''+'' tstr) of
        None \<Rightarrow> (case parse_hh_mm_ss_ff tstr of None \<Rightarrow> None | Some tc \<Rightarrow> Some (tc, None))
      | Some i \<Rightarrow>
          (case parse_hh_mm_ss_ff (take i tstr) of
             None \<Rightarrow> None
           | Some tc \<Rightarrow>
               (case parse_tz (drop (Suc i) tstr) of
                  None \<Rightarrow> None
                | Some off \<Rightarrow>
                    Some (tc, Some (if tstr ! i = CHR ''-'' then - off else off)))))"

definition invalid_isoformat :: "string \<Rightarrow> string" where
  "invalid_isoformat date_string = ''Invalid isoformat string: '' @ py_repr date_string"

text \<open>
  The range checks of the \<^verbatim>\<open>timezone\<close> and \<^verbatim>\<open>datetime\<close> constructors, in the
  order they are made, with the text of the error.
\<close>

definition check_fields ::
  "int \<Rightarrow> int \<Rightarrow> int \<Rightarrow> int \<Rightarrow> int \<Rightarrow> int \<Rightarrow> int option \<Rightarrow> string option" where
  "check_fields y m d hh mm ss off =
     (if (case off of None \<Rightarrow> False | Some z \<Rightarrow> z \<le> - US_PER_DAY \<or> US_PER_DAY \<le> z)
      then Some (''offset must be a timedelta strictly between -timedelta(hours=24) and timedelta(hours=24), not ''
                 @ timedelta_repr (case off of None \<Rightarrow> 0 | Some z \<Rightarrow> z) @ ''.'')
      else if y < 1 \<or> 9999 < y then Some (''year '' @ str_int y @ '' is out of range'')
      else if m < 1 \<or> 12 < m then Some ''month must be in 1..12''
      else if d < 1 \<or> days_in_month y m < d then Some ''day is out of range for month''
      else if 23 < hh then Some ''hour must be in 0..23''
      else if 59 < mm then Some ''minute must be in 0..59''
      else if 59 < ss then Some ''second must be in 0..59''
      else None)"

definition fromisoformat :: iso_parser where
  "fromisoformat date_string =
     (case parse_isoformat_date (take 10 date_string) of
        None \<Rightarrow> Inl (invalid_isoformat date_string)
      | Some (y, m, d) \<Rightarrow>
          (case (if drop 11 date_string = [] then Some ((0, 0, 0, 0), None)
                 else parse_isoformat_time (drop 11 date_string)) of
             None \<Rightarrow> Inl (invalid_isoformat date_string)
           | Some ((hh, mm, ss, ff), off) \<Rightarrow>
               (case check_fields y m d hh mm ss off of
                  Some msg \<Rightarrow> Inl msg
                | None \<Rightarrow>
                    (case off of
                       None \<Rightarrow> Inr (Naive (wall_us y m d hh mm ss ff))
                     | Some z \<Rightarrow> Inr (Aware (wall_us y m d hh mm ss ff - z))))))"

text \<open>The instant of an aware UTC \<^verbatim>\<open>datetime\<close> given by its fields, for clock readings.\<close>

definition utc_instant :: "int \<Rightarrow> int \<Rightarrow> int \<Rightarrow> int \<Rightarrow> int \<Rightarrow> int \<Rightarrow> int" where
  "utc_instant y m d hh mm ss = wall_us y m d hh mm ss 0"

section \<open>The presenter\<close>

text \<open>
  The slice \<^verbatim>\<open>xs[:k]\<close>: a negative \<open>k\<close> counts from the end of the list.
\<close>

definition slice_to :: "'a list \<Rightarrow> int \<Rightarrow> 'a list" where
  "slice_to xs k = (if k < 0 then take (nat (int (length xs) + k)) xs else take (nat k) xs)"

definition NEWLINE :: string where
  "NEWLINE = [CHR 0x0A]"

text \<open>
  \<^verbatim>\<open>video.get("snippet", {}).get("title", "No Title")\<close> and \<^verbatim>\<open>video.get("id", "")\<close>.
\<close>

definition get_title :: "video \<Rightarrow> string" where
  "get_title v =
     (case snippet v of
        None \<Rightarrow> ''No Title''
      | Some sn \<Rightarrow> (case title sn of None \<Rightarrow> ''No Title'' | Some t \<Rightarrow> t))"

definition get_id :: "video \<Rightarrow> string" where
  "get_id v = (case video_id v of None \<Rightarrow> [] | Some i \<Rightarrow> i)"

text \<open>
  Standard output is the list of the strings given to \<^verbatim>\<open>print\<close>, one element for
  each call. The loop over \<^verbatim>\<open>enumerate(videos[:num_to_display])\<close> makes two calls for
  each video; \<open>i\<close> is the index \<^verbatim>\<open>enumerate\<close> has reached.
\<close>

fun print_entries :: "nat \<Rightarrow> video list \<Rightarrow> string list" where
  "print_entries i [] = []"
| "print_entries i (v # vs) =
     (let video_url = ''https://www.youtube.com/watch?v='' @ get_id v
      in [str_int (int i + 1) @ ''. '' @ get_title v,
          ''   Link: '' @ video_url @ NEWLINE]
         @ print_entries (Suc i) vs)"

definition header_line :: "int \<Rightarrow> int \<Rightarrow> string \<Rightarrow> string" where
  "header_line num_to_display display_hours display_region =
     NEWLINE @ ''Top '' @ str_int num_to_display @ '' YouTube Videos from the Last ''
     @ str_int display_hours @ '' Hours (Region: '' @ display_region @ ''):''"

definition display_videos :: "video list \<Rightarrow> int \<Rightarrow> int \<Rightarrow> string \<Rightarrow> string list" where
  "display_videos videos cnt display_hours display_region =
     (if videos = [] then [''No videos found matching the criteria.'']
      else
        (let num_to_display = min (int (length videos)) cnt
         in [header_line num_to_display display_hours display_region,
             replicate 80 (CHR ''-'')]
            @ print_entries 0 (slice_to videos num_to_display)))"

section \<open>The client builder and the fetcher\<close>

text \<open>
  The service object is what \<^verbatim>\<open>googleapiclient.discovery.build\<close> returns. All the
  program does with it is build the \<^verbatim>\<open>videos().list\<close> request and execute it, so it
  is modelled by the outcome of that request for a region code and a result cap: an
  exception, or the response, of which only the \<^verbatim>\<open>items\<close> key is read (\<open>None\<close>
  when the response has no such key).
\<close>

datatype service = Service (execute_request: "string \<Rightarrow> int \<Rightarrow> exn + video list option")

text \<open>The calls that leave the program, in the order they are made.\<close>

datatype call = BuildCall string string string | ExecuteCall string int

text \<open>
  The environment of one run: the value of \<^verbatim>\<open>os.getenv("YOUTUBE_API_KEY")\<close>, the
  behaviour of \<^verbatim>\<open>build\<close> (an exception, or the object it returns, \<open>None\<close> standing for
  an object that is false in a condition), the clock and the timestamp parser.
\<close>

record world =
  env_API_KEY :: "string option"
  env_build :: "string \<Rightarrow> string \<Rightarrow> string \<Rightarrow> exn + service option"
  env_now :: int
  env_fromisoformat :: iso_parser

definition API_KEY_MISSING :: string where
  "API_KEY_MISSING =
     ''API key not found. Please set YOUTUBE_API_KEY in your .env file or environment.''"

definition get_youtube_service :: "world \<Rightarrow> (exn + service option) \<times> call list" where
  "get_youtube_service w =
     (case env_API_KEY w of
        None \<Rightarrow> (Inl (ValueError API_KEY_MISSING), [])
      | Some k \<Rightarrow>
          if k = [] then (Inl (ValueError API_KEY_MISSING), [])
          else (env_build w API_SERVICE_NAME API_VERSION k,
                [BuildCall API_SERVICE_NAME API_VERSION k]))"

text \<open>
  \<^verbatim>\<open>fetch_popular_videos\<close>: what it returns or raises, the lines it prints and the
  calls it makes. The \<^verbatim>\<open>except\<close> clause names \<^verbatim>\<open>HttpError\<close> only; any other
  exception of the request leaves the function.
\<close>

definition fetch_popular_videos ::
  "service \<Rightarrow> string \<Rightarrow> int \<Rightarrow> (exn + video list) \<times> string list \<times> call list" where
  "fetch_popular_videos youtube region_code max_results =
     (case execute_request youtube region_code max_results of
        Inr response \<Rightarrow>
          (Inr (case response of None \<Rightarrow> [] | Some items \<Rightarrow> items), [],
           [ExecuteCall region_code max_results])
      | Inl (HttpError e) \<Rightarrow>
          (Inr [], [''An API error occurred: '' @ e], [ExecuteCall region_code max_results])
      | Inl e \<Rightarrow> (Inl e, [], [ExecuteCall region_code max_results]))"

section \<open>The orchestrator\<close>

text \<open>The parsed command line.\<close>

record args =
  arg_region :: string
  arg_hours :: int
  arg_fetch :: int
  arg_count :: int

definition default_args :: args where
  "default_args =
     \<lparr>arg_region = DEFAULT_REGION_CODE, arg_hours = HOURS_TO_FILTER,
      arg_fetch = MAX_RESULTS_TO_FETCH, arg_count = 5\<rparr>"

text \<open>
  \<^verbatim>\<open>main\<close> after \<^verbatim>\<open>parse_args\<close>: how it ends (\<open>Inr ()\<close> is a normal return, \<open>Inl e\<close>
  an exception that nothing catches), the lines printed and the calls made.
\<close>

definition main :: "world \<Rightarrow> args \<Rightarrow> (exn + unit) \<times> string list \<times> call list" where
  "main w a =
     (case get_youtube_service w of
        (Inl (ValueError e), cs) \<Rightarrow> (Inr (), [e], cs)
      | (Inl ex, cs) \<Rightarrow> (Inl ex, [], cs)
      | (Inr None, cs) \<Rightarrow> (Inr (), [''Failed to get YouTube service. Exiting.''], cs)
      | (Inr (Some youtube_service), cs) \<Rightarrow>
          (case fetch_popular_videos youtube_service (arg_region a) (arg_fetch a) of
             (Inl ex, out1, cs1) \<Rightarrow> (Inl ex, out1, cs @ cs1)
           | (Inr videos, out1, cs1) \<Rightarrow>
               if videos = []
               then (Inr (),
                     out1 @ [''No popular videos found for region '' @ arg_region a @ ''.''],
                     cs @ cs1)
               else
                 (case filter_videos_by_time (env_fromisoformat w) (env_now w) videos
                         (Some (arg_hours a)) of
                    (Inl ex, out2) \<Rightarrow> (Inl ex, out1 @ out2, cs @ cs1)
                  | (Inr filtered_videos, out2) \<Rightarrow>
                      if filtered_videos = []
                      then (Inr (),
                            out1 @ out2
                            @ [''No videos found published in the last ''
                               @ str_int (arg_hours a) @ '' hours for region ''
                               @ arg_region a @ ''.''],
                            cs @ cs1)
                      else (Inr (),
                            out1 @ out2
                            @ display_videos filtered_videos (arg_count a) (arg_hours a)
                                (arg_region a),
                            cs @ cs1))))"

section \<open>What the loop does with one item\<close>

text \<open>
  Three predicates on one item, read off the loop body. An item is in the window when
  its timestamp is present, not empty and parses to an aware instant not earlier than
  the threshold; it has a naive stamp when the parse gives a \<^verbatim>\<open>datetime\<close> without
  zone; its diagnostics are the lines the \<^verbatim>\<open>except\<close> branch prints for it.
\<close>

definition in_window :: "iso_parser \<Rightarrow> int \<Rightarrow> video \<Rightarrow> bool" where
  "in_window p th v =
     (case get_publishedAt v of
        None \<Rightarrow> False
      | Some s \<Rightarrow> s \<noteq> [] \<and> (case p (rewrite_Z s) of Inr (Aware t) \<Rightarrow> th \<le> t | _ \<Rightarrow> False))"

definition naive_stamp :: "iso_parser \<Rightarrow> video \<Rightarrow> bool" where
  "naive_stamp p v =
     (case get_publishedAt v of
        None \<Rightarrow> False
      | Some s \<Rightarrow> s \<noteq> [] \<and> (case p (rewrite_Z s) of Inr (Naive t) \<Rightarrow> True | _ \<Rightarrow> False))"

definition diagnostics :: "iso_parser \<Rightarrow> video \<Rightarrow> string list" where
  "diagnostics p v =
     (case get_publishedAt v of
        None \<Rightarrow> []
      | Some s \<Rightarrow>
          if s = [] then []
          else (case p (rewrite_Z s) of
                  Inl e \<Rightarrow> [parse_error_line (rewrite_Z s) v e]
                | Inr d \<Rightarrow> []))"

text \<open>A \<^verbatim>\<open>datetime\<close> between year 1 and year 9999.\<close>

definition representable :: "int \<Rightarrow> bool" where
  "representable t = (0 \<le> t \<and> t < MAX_ORDINAL * US_PER_DAY)"

section \<open>Sample inputs\<close>

text \<open>
  Concrete items and a concrete clock reading, on which the theorems below are run:
  noon of 2024-01-01 (UTC), so that a window of 12 hours starts at midnight.
\<close>

definition mk_video :: "string \<Rightarrow> string \<Rightarrow> string \<Rightarrow> video" where
  "mk_video t s i =
     \<lparr>snippet = Some \<lparr>title = Some t, publishedAt = Some s\<rparr>, video_id = Some i,
      other_fields = []\<rparr>"

definition NOON :: int where
  "NOON = utc_instant 2024 1 1 12 0 0"

definition at_boundary :: video where
  "at_boundary = mk_video ''Boundary'' ''2024-01-01T00:00:00Z'' ''v-boundary''"

definition too_old :: video where
  "too_old = mk_video ''Old'' ''2023-12-31T23:59:59Z'' ''v-old''"

definition recent :: video where
  "recent = mk_video ''Recent'' ''2024-01-01T09:30:00+00:00'' ''v-recent''"

definition malformed :: video where
  "malformed = mk_video ''Broken'' ''not-a-dateZ'' ''v-broken''"

definition zoneless :: video where
  "zoneless = mk_video ''Zoneless'' ''2024-01-01T09:30:00'' ''v-zoneless''"

definition stale :: video where
  "stale = mk_video ''Stale'' ''2023-12-31T17:59:59Z'' ''v-stale''"

definition at_boundary_offset :: video where
  "at_boundary_offset = mk_video ''Boundary'' ''2024-01-01T00:00:00+00:00'' ''v-boundary''"

definition no_snippet :: video where
  "no_snippet = \<lparr>snippet = None, video_id = Some ''v-bare'', other_fields = []\<rparr>"

definition no_timestamp :: video where
  "no_timestamp =
     \<lparr>snippet = Some \<lparr>title = Some ''Undated'', publishedAt = None\<rparr>,
      video_id = Some ''v-undated'', other_fields = []\<rparr>"

definition empty_timestamp :: video where
  "empty_timestamp = mk_video ''Blank'' [] ''v-blank''"

definition three_videos :: "video list" where
  "three_videos =
     [mk_video ''First'' ''2024-01-01T09:00:00Z'' ''id1'',
      \<lparr>snippet = Some \<lparr>title = None, publishedAt = Some ''2024-01-01T08:00:00Z''\<rparr>,
       video_id = Some ''id2'', other_fields = []\<rparr>,
      mk_video ''Third'' ''2024-01-01T07:00:00Z'' ''id3'']"

text \<open>
  Environments: one whose request returns three items, the same without a credential
  and with an empty one, and one whose request fails because the host is not found.
\<close>

definition sample_service :: service where
  "sample_service = Service (\<lambda>region_code max_results. Inr (Some [too_old, at_boundary, recent]))"

definition sample_world :: world where
  "sample_world =
     \<lparr>env_API_KEY = Some ''secret'',
      env_build = (\<lambda>name version key. Inr (Some sample_service)),
      env_now = NOON,
      env_fromisoformat = fromisoformat\<rparr>"

definition keyless_world :: world where
  "keyless_world = sample_world\<lparr>env_API_KEY := None\<rparr>"

definition empty_key_world :: world where
  "empty_key_world = sample_world\<lparr>env_API_KEY := Some []\<rparr>"

definition unreachable_service :: service where
  "unreachable_service = Service (\<lambda>region_code max_results. Inl ServerNotFoundError)"

definition offline_world :: world where
  "offline_world = sample_world\<lparr>env_build := (\<lambda>name version key. Inr (Some unreachable_service))\<rparr>"

definition one_shown :: args where
  "one_shown = default_args\<lparr>arg_count := 1\<rparr>"

section \<open>The loop, item by item\<close>

lemma filter_loop_Cons:
  "filter_loop p th (v # vs) acc out =
     (if naive_stamp p v then (Inl TypeError, out)
      else filter_loop p th vs (if in_window p th v then acc @ [v] else acc)
             (out @ diagnostics p v))"
  by (simp add: in_window_def diagnostics_def naive_stamp_def Let_def
           split: option.splits sum.splits datetime.splits)

lemma filter_loop_Inr:
  "filter_loop p th vs acc out = (Inr res, out') \<Longrightarrow>
     res = acc @ filter (in_window p th) vs \<and> out' = out @ concat (map (diagnostics p) vs)"
proof (induction vs arbitrary: acc out)
  case Nil
  then show ?case by simp
next
  case (Cons v vs)
  from Cons.prems have nn: "\<not> naive_stamp p v"
    by (auto simp only: filter_loop_Cons split: if_splits)
  with Cons.prems have
    "filter_loop p th vs (if in_window p th v then acc @ [v] else acc)
       (out @ diagnostics p v) = (Inr res, out')"
    by (simp only: filter_loop_Cons if_False)
  from Cons.IH [OF this] show ?case by simp
qed

lemma filter_loop_total:
  "\<forall>v \<in> set vs. \<not> naive_stamp p v \<Longrightarrow>
     filter_loop p th vs acc out =
       (Inr (acc @ filter (in_window p th) vs), out @ concat (map (diagnostics p) vs))"
proof (induction vs arbitrary: acc out)
  case Nil
  then show ?case by simp
next
  case (Cons v vs)
  then show ?case by (simp only: filter_loop_Cons) simp
qed

lemma filter_loop_append:
  "filter_loop p th (xs @ ys) acc out =
     (case filter_loop p th xs acc out of
        (Inl e, out') \<Rightarrow> (Inl e, out')
      | (Inr acc', out') \<Rightarrow> filter_loop p th ys acc' out')"
proof (induction xs arbitrary: acc out)
  case Nil
  then show ?case by simp
next
  case (Cons v xs)
  show ?case
    unfolding append_Cons filter_loop_Cons by (simp add: Cons.IH)
qed


section \<open>The threshold and the whole filter\<close>

lemma timedelta_hours_Inr: "timedelta_hours h = Inr d \<Longrightarrow> d = h * US_PER_HOUR"
  by (simp add: timedelta_hours_def Let_def split: if_splits)

lemma datetime_sub_Inr: "datetime_sub t d = Inr r \<Longrightarrow> r = t - d \<and> representable r"
  by (auto simp add: datetime_sub_def representable_def Let_def split: if_splits)

lemma threshold_representable:
  assumes "representable now" and "representable (now - h * US_PER_HOUR)"
  shows "timedelta_hours h = Inr (h * US_PER_HOUR)"
    and "datetime_sub now (h * US_PER_HOUR) = Inr (now - h * US_PER_HOUR)"
proof -
  have "- 999999999 \<le> (h * US_PER_HOUR) div US_PER_DAY \<and> (h * US_PER_HOUR) div US_PER_DAY \<le> 999999999"
    using assms unfolding representable_def MAX_ORDINAL_def US_PER_DAY_def US_PER_HOUR_def
    by auto
  then show "timedelta_hours h = Inr (h * US_PER_HOUR)"
    by (simp add: timedelta_hours_def Let_def)
  show "datetime_sub now (h * US_PER_HOUR) = Inr (now - h * US_PER_HOUR)"
    using assms by (simp add: datetime_sub_def representable_def Let_def)
qed

lemma filter_videos_by_time_Inr:
  assumes "filter_videos_by_time p now vs (Some h) = (Inr res, printed)"
  shows "res = filter (in_window p (now - h * US_PER_HOUR)) vs"
    and "printed = concat (map (diagnostics p) vs)"
  using assms
  by (auto simp: filter_videos_by_time_def Let_def
           dest!: timedelta_hours_Inr datetime_sub_Inr filter_loop_Inr
           split: sum.splits)

lemma filter_videos_by_time_total:
  assumes "representable now" and "representable (now - h * US_PER_HOUR)"
    and "\<forall>v \<in> set vs. \<not> naive_stamp p v"
  shows "filter_videos_by_time p now vs (Some h) =
           (Inr (filter (in_window p (now - h * US_PER_HOUR)) vs),
            concat (map (diagnostics p) vs))"
  using threshold_representable [OF assms(1,2)] filter_loop_total [OF assms(3)]
  by (simp add: filter_videos_by_time_def)


lemma sublist_third: "sublist x (a @ b @ x @ r)"
  using sublist_appendI [of x "a @ b" r] by simp

lemma sublist_seventh: "sublist x (a @ b @ c @ d @ e @ f @ x @ r)"
  using sublist_appendI [of x "a @ b @ c @ d @ e @ f" r] by simp

lemma in_window_iff:
  "in_window p th v \<longleftrightarrow>
     (\<exists>s t. get_publishedAt v = Some s \<and> s \<noteq> [] \<and> p (rewrite_Z s) = Inr (Aware t) \<and> th \<le> t)"
  by (auto simp: in_window_def split: option.splits sum.splits datetime.splits)

lemma in_window_quiet:
  "in_window p th v \<Longrightarrow> diagnostics p v = [] \<and> \<not> naive_stamp p v"
  by (auto simp: in_window_def diagnostics_def naive_stamp_def
           split: option.splits sum.splits datetime.splits)

lemma unparseable_logged:
  assumes "get_publishedAt b = Some s" and "s \<noteq> []" and "p (rewrite_Z s) = Inl e"
  shows "diagnostics p b = [parse_error_line (rewrite_Z s) b e]"
    and "\<not> naive_stamp p b" and "\<not> in_window p th b"
  using assms by (simp_all add: in_window_def diagnostics_def naive_stamp_def)

lemma hours_default:
  "filter_videos_by_time p now vs None = filter_videos_by_time p now vs (Some HOURS_TO_FILTER)"
  by (simp add: filter_videos_by_time_def)

section \<open>The time filter: what it returns\<close>

text \<open>
  C1. Whenever \<^verbatim>\<open>filter_videos_by_time\<close> returns, every item of the result has a
  timestamp that parses to an aware instant not earlier than the threshold
  \<open>now - h\<close> hours, and every item of the input whose timestamp parses to exactly
  the threshold is in the result: the bound is inclusive. This holds for every window
  \<open>h\<close>, in particular for \<open>h \<ge> 0\<close>, for every clock reading and for every parser.
\<close>

theorem filter_never_returns_older:
  assumes "filter_videos_by_time p now videos (Some h) = (Inr res, printed)"
  shows "(\<forall>v \<in> set res. \<exists>s t. get_publishedAt v = Some s \<and> p (rewrite_Z s) = Inr (Aware t)
            \<and> now - h * US_PER_HOUR \<le> t)
       \<and> (\<forall>v \<in> set videos. \<forall>s. get_publishedAt v = Some s \<and> s \<noteq> []
            \<and> p (rewrite_Z s) = Inr (Aware (now - h * US_PER_HOUR)) \<longrightarrow> v \<in> set res)"
proof -
  have res: "res = filter (in_window p (now - h * US_PER_HOUR)) videos"
    by (rule filter_videos_by_time_Inr(1) [OF assms])
  have older: "\<exists>s t. get_publishedAt v = Some s \<and> p (rewrite_Z s) = Inr (Aware t)
                 \<and> now - h * US_PER_HOUR \<le> t"
    if "in_window p (now - h * US_PER_HOUR) v" for v
    using that
    by (auto simp: in_window_def split: option.splits sum.splits datetime.splits)
  have incl: "in_window p (now - h * US_PER_HOUR) v"
    if "get_publishedAt v = Some s" "s \<noteq> []"
       "p (rewrite_Z s) = Inr (Aware (now - h * US_PER_HOUR))" for v s
    using that by (simp add: in_window_def)
  show ?thesis
    unfolding res using older incl by auto
qed

text \<open>
  The theorem at noon with a window of 12 hours: the item published at midnight,
  exactly on the threshold, is kept, and the one published a second earlier is not.
\<close>

theorem filter_never_returns_older_witness:
  "filter_videos_by_time fromisoformat NOON [too_old, at_boundary, recent] (Some 12)
     = (Inr [at_boundary, recent], [])
   \<and> (\<exists>s t. get_publishedAt at_boundary = Some s
        \<and> fromisoformat (rewrite_Z s) = Inr (Aware t) \<and> NOON - 12 * US_PER_HOUR \<le> t)
   \<and> fromisoformat (rewrite_Z ''2024-01-01T00:00:00Z'') = Inr (Aware (NOON - 12 * US_PER_HOUR))"
proof -
  have run: "filter_videos_by_time fromisoformat NOON [too_old, at_boundary, recent] (Some 12)
               = (Inr [at_boundary, recent], [])"
    by code_simp
  have edge: "fromisoformat (rewrite_Z ''2024-01-01T00:00:00Z'')
                = Inr (Aware (NOON - 12 * US_PER_HOUR))"
    by code_simp
  from filter_never_returns_older [OF run] run edge show ?thesis
    by simp
qed

text \<open>
  C4. Whenever \<^verbatim>\<open>filter_videos_by_time\<close> returns, its result is a subsequence of the
  input: it is obtained from the input by deleting items, so every item of the result
  occurs in the input and the items that remain keep their relative order.
\<close>

theorem filter_output_is_subsequence:
  assumes "filter_videos_by_time p now videos hours_opt = (Inr res, printed)"
  shows "subseq res videos"
proof -
  obtain h where "filter_videos_by_time p now videos (Some h) = (Inr res, printed)"
    using assms by (cases hours_opt) (auto simp: filter_videos_by_time_def)
  then have "res = filter (in_window p (now - h * US_PER_HOUR)) videos"
    by (rule filter_videos_by_time_Inr(1))
  then show ?thesis by simp
qed

text \<open>The theorem on four items, with the default window of 12 hours.\<close>

theorem filter_output_is_subsequence_witness:
  "filter_videos_by_time fromisoformat NOON [too_old, at_boundary, malformed, recent] None
     = (Inr [at_boundary, recent],
        [parse_error_line ''not-a-date+00:00'' malformed
           (invalid_isoformat ''not-a-date+00:00'')])
   \<and> subseq [at_boundary, recent] [too_old, at_boundary, malformed, recent]"
proof -
  have run: "filter_videos_by_time fromisoformat NOON
               [too_old, at_boundary, malformed, recent] None
             = (Inr [at_boundary, recent],
                [parse_error_line ''not-a-date+00:00'' malformed
                   (invalid_isoformat ''not-a-date+00:00'')])"
    by code_simp
  from filter_output_is_subsequence [OF run] run show ?thesis
    by simp
qed


section \<open>The time filter: a malformed timestamp\<close>

text \<open>
  C3, as the code has it. Let the clock reading and the threshold \<open>now - h\<close> hours be
  representable, let one item \<open>b\<close> have a non-empty timestamp \<open>s\<close> that the parser
  rejects, and let every other item have a non-empty timestamp that parses to a
  zone-aware instant not earlier than the threshold. Then the filter returns, its
  result is exactly the other items in their order, and it prints exactly one line.
  That line contains the string that was handed to the parser, which is \<open>s\<close> with a
  final \<^verbatim>\<open>Z\<close> replaced by \<^verbatim>\<open>+00:00\<close>, and the item's \<^verbatim>\<open>id\<close> (the text
  \<^verbatim>\<open>N/A\<close> when the item has none).
\<close>

theorem one_malformed_item_is_logged_and_dropped:
  assumes "representable now" and "representable (now - h * US_PER_HOUR)"
    and "get_publishedAt b = Some s" and "s \<noteq> []" and "p (rewrite_Z s) = Inl e"
    and "\<forall>v \<in> set (xs @ ys). \<exists>s' t. get_publishedAt v = Some s' \<and> s' \<noteq> []
           \<and> p (rewrite_Z s') = Inr (Aware t) \<and> now - h * US_PER_HOUR \<le> t"
  shows "filter_videos_by_time p now (xs @ b # ys) (Some h)
           = (Inr (xs @ ys), [parse_error_line (rewrite_Z s) b e])
       \<and> sublist (rewrite_Z s) (parse_error_line (rewrite_Z s) b e)
       \<and> sublist (case video_id b of None \<Rightarrow> ''N/A'' | Some i \<Rightarrow> i)
           (parse_error_line (rewrite_Z s) b e)"
proof -
  let ?th = "now - h * US_PER_HOUR"
  note bad = unparseable_logged [of b s p e, OF assms(3-5)]
  have others: "\<forall>v \<in> set (xs @ ys). in_window p ?th v"
    using assms(6) by (simp only: in_window_iff)
  have quiet: "diagnostics p v = [] \<and> \<not> naive_stamp p v" if "v \<in> set (xs @ ys)" for v
    using others that in_window_quiet by blast
  have no_naive: "\<forall>v \<in> set (xs @ b # ys). \<not> naive_stamp p v"
    using quiet bad(2) by auto
  have kept: "filter (in_window p ?th) (xs @ b # ys) = xs @ ys"
    using others bad(3) [of ?th] by (simp add: filter_id_conv)
  have ex: "concat (map (diagnostics p) xs) = []"
    and ey: "concat (map (diagnostics p) ys) = []"
    using quiet by simp_all
  have lines: "concat (map (diagnostics p) (xs @ b # ys))
                 = [parse_error_line (rewrite_Z s) b e]"
    by (simp add: ex ey bad(1))
  have run: "filter_videos_by_time p now (xs @ b # ys) (Some h)
               = (Inr (xs @ ys), [parse_error_line (rewrite_Z s) b e])"
    using filter_videos_by_time_total [OF assms(1,2) no_naive] kept lines by simp
  have s1: "sublist (rewrite_Z s) (parse_error_line (rewrite_Z s) b e)"
    unfolding parse_error_line_def by (rule sublist_third)
  have s2: "sublist (case video_id b of None \<Rightarrow> ''N/A'' | Some i \<Rightarrow> i)
              (parse_error_line (rewrite_Z s) b e)"
    unfolding parse_error_line_def by (rule sublist_seventh)
  from run s1 s2 show ?thesis by simp
qed

text \<open>
  The theorem at noon with a window of 12 hours, on three items of which the second
  has the timestamp \<^verbatim>\<open>not-a-dateZ\<close>.
\<close>

theorem one_malformed_item_is_logged_and_dropped_witness:
  "filter_videos_by_time fromisoformat NOON ([at_boundary] @ malformed # [recent]) (Some 12)
     = (Inr ([at_boundary] @ [recent]),
        [parse_error_line (rewrite_Z ''not-a-dateZ'') malformed
           (invalid_isoformat ''not-a-date+00:00'')])
   \<and> sublist ''not-a-date+00:00''
        (parse_error_line (rewrite_Z ''not-a-dateZ'') malformed
           (invalid_isoformat ''not-a-date+00:00''))
   \<and> sublist ''v-broken''
        (parse_error_line (rewrite_Z ''not-a-dateZ'') malformed
           (invalid_isoformat ''not-a-date+00:00''))"
proof -
  have a1: "representable NOON" by code_simp
  have a2: "representable (NOON - 12 * US_PER_HOUR)" by code_simp
  have a3: "get_publishedAt malformed = Some ''not-a-dateZ''" by code_simp
  have a4: "''not-a-dateZ'' \<noteq> []" by simp
  have a5: "fromisoformat (rewrite_Z ''not-a-dateZ'') = Inl (invalid_isoformat ''not-a-date+00:00'')"
    by code_simp
  have "in_window fromisoformat (NOON - 12 * US_PER_HOUR) at_boundary"
       "in_window fromisoformat (NOON - 12 * US_PER_HOUR) recent"
    by code_simp+
  then have a6: "\<forall>v \<in> set ([at_boundary] @ [recent]).
                   \<exists>s' t. get_publishedAt v = Some s' \<and> s' \<noteq> []
                     \<and> fromisoformat (rewrite_Z s') = Inr (Aware t)
                     \<and> NOON - 12 * US_PER_HOUR \<le> t"
    by (simp add: in_window_iff)
  have r: "rewrite_Z ''not-a-dateZ'' = ''not-a-date+00:00''" by code_simp
  have i: "video_id malformed = Some ''v-broken''" by code_simp
  from one_malformed_item_is_logged_and_dropped [OF a1 a2 a3 a4 a5 a6]
  show ?thesis by (simp add: r i)
qed

text \<open>
  The line shows the rewritten string, not the value of the field: for the timestamp
  \<^verbatim>\<open>not-a-dateZ\<close>, which the parser rejects as it is and after the rewrite, the
  line printed names \<^verbatim>\<open>not-a-date+00:00\<close> and does not contain \<^verbatim>\<open>not-a-dateZ\<close>.
  And the filter can raise. With a window of 100000000 hours the threshold would lie
  before year 1, and the subtraction is an \<^verbatim>\<open>OverflowError\<close> before any item is
  looked at. With a second item stamped \<^verbatim>\<open>2024-01-01T09:30:00\<close>, which has no zone
  and read as UTC lies in the window, the comparison with the threshold is a
  \<^verbatim>\<open>TypeError\<close>: after the diagnostic when the malformed item comes first, before
  it when the zoneless item comes first.
\<close>

theorem malformed_value_not_in_diagnostic:
  "get_publishedAt malformed = Some ''not-a-dateZ''
   \<and> fromisoformat ''not-a-dateZ'' = Inl (invalid_isoformat ''not-a-dateZ'')
   \<and> filter_videos_by_time fromisoformat NOON [malformed] (Some 12)
       = (Inr [], [parse_error_line ''not-a-date+00:00'' malformed
                     (invalid_isoformat ''not-a-date+00:00'')])
   \<and> \<not> sublist ''not-a-dateZ''
        (parse_error_line ''not-a-date+00:00'' malformed
           (invalid_isoformat ''not-a-date+00:00''))
   \<and> filter_videos_by_time fromisoformat NOON [malformed] (Some 100000000)
       = (Inl OverflowError, [])
   \<and> fromisoformat ''2024-01-01T09:30:00'' = Inr (Naive (utc_instant 2024 1 1 9 30 0))
   \<and> NOON - 12 * US_PER_HOUR \<le> utc_instant 2024 1 1 9 30 0
   \<and> filter_videos_by_time fromisoformat NOON [malformed, zoneless] (Some 12)
       = (Inl TypeError, [parse_error_line ''not-a-date+00:00'' malformed
                            (invalid_isoformat ''not-a-date+00:00'')])
   \<and> filter_videos_by_time fromisoformat NOON [zoneless, malformed] (Some 12)
       = (Inl TypeError, [])"
  by code_simp


text \<open>
  Two ways in which the filter raises instead of returning: a window so long that the
  threshold would lie before year 1, and a timestamp without zone, whose comparison
  with the aware threshold is a \<^verbatim>\<open>TypeError\<close>.
\<close>

lemma huge_window_raises:
  "filter_videos_by_time p NOON videos (Some 100000000) = (Inl OverflowError, [])"
proof -
  have d: "timedelta_hours 100000000 = Inr (100000000 * US_PER_HOUR)"
    by code_simp
  have s: "datetime_sub NOON (100000000 * US_PER_HOUR) = Inl OverflowError"
    by code_simp
  show ?thesis by (simp add: filter_videos_by_time_def d s)
qed

lemma naive_timestamp_raises:
  "filter_videos_by_time fromisoformat NOON
     [mk_video ''Zoneless'' ''2024-01-01T09:30:00'' ''v-zoneless''] (Some 12)
     = (Inl TypeError, [])"
  by code_simp

section \<open>The time filter: an absent or empty timestamp\<close>

lemma silent_step:
  assumes "get_publishedAt v = None \<or> get_publishedAt v = Some []"
  shows "filter_loop p th (v # vs) acc out = filter_loop p th vs acc out"
  using assms by auto

lemma silent_not_in_window:
  assumes "get_publishedAt v = None \<or> get_publishedAt v = Some []"
  shows "\<not> in_window p th v"
  using assms by (auto simp: in_window_def)

lemma silent_anywhere:
  assumes "get_publishedAt v = None \<or> get_publishedAt v = Some []"
  shows "filter_loop p th (xs @ v # ys) acc out = filter_loop p th (xs @ ys) acc out"
  by (simp only: filter_loop_append [of p th xs] silent_step [OF assms])

text \<open>
  C10. An item without \<^verbatim>\<open>snippet\<close>, or whose \<^verbatim>\<open>snippet\<close> has no
  \<^verbatim>\<open>publishedAt\<close>, or whose \<^verbatim>\<open>publishedAt\<close> is the empty string, is passed over
  by the loop: the list built so far and the lines printed so far stay as they are and
  nothing is raised. So the filter behaves on a list holding such an item as on the
  list without it (the same result or exception, the same lines), and the item is
  never in the result.
\<close>

theorem missing_timestamp_dropped_silently:
  assumes "snippet v = None
           \<or> (\<exists>sn. snippet v = Some sn \<and> (publishedAt sn = None \<or> publishedAt sn = Some []))"
  shows "filter_loop p th (v # vs) acc out = filter_loop p th vs acc out
       \<and> filter_videos_by_time p now (xs @ v # ys) hours_opt
           = filter_videos_by_time p now (xs @ ys) hours_opt
       \<and> (\<forall>res printed. filter_videos_by_time p now (xs @ v # ys) hours_opt = (Inr res, printed)
             \<longrightarrow> v \<notin> set res)"
proof -
  from assms have silent: "get_publishedAt v = None \<or> get_publishedAt v = Some []"
    by (auto simp: get_publishedAt_def)
  have step: "filter_loop p th (v # vs) acc out = filter_loop p th vs acc out"
    by (rule silent_step [OF silent])
  have same: "filter_videos_by_time p now (xs @ v # ys) hours_opt
                = filter_videos_by_time p now (xs @ ys) hours_opt"
    by (simp add: filter_videos_by_time_def silent_anywhere [OF silent] split: sum.splits)
  have absent: "v \<notin> set res"
    if run: "filter_videos_by_time p now (xs @ v # ys) hours_opt = (Inr res, printed)"
    for res printed
  proof -
    obtain h where "filter_videos_by_time p now (xs @ v # ys) (Some h) = (Inr res, printed)"
      using run by (cases hours_opt) (auto simp: hours_default)
    then have "res = filter (in_window p (now - h * US_PER_HOUR)) (xs @ v # ys)"
      by (rule filter_videos_by_time_Inr(1))
    with silent_not_in_window [OF silent] show ?thesis by auto
  qed
  from step same absent show ?thesis by blast
qed

text \<open>
  The theorem on an item without \<^verbatim>\<open>snippet\<close> between two recent items, and on an
  item with an empty timestamp: nothing is printed for either.
\<close>

theorem missing_timestamp_dropped_silently_witness:
  "snippet no_snippet = None
   \<and> filter_videos_by_time fromisoformat NOON ([at_boundary] @ no_snippet # [recent]) (Some 12)
       = (Inr [at_boundary, recent], [])
   \<and> filter_videos_by_time fromisoformat NOON ([] @ empty_timestamp # [no_timestamp]) (Some 12)
       = (Inr [], [])"
proof -
  have a: "snippet no_snippet = None
           \<or> (\<exists>sn. snippet no_snippet = Some sn
                 \<and> (publishedAt sn = None \<or> publishedAt sn = Some []))"
    by (simp add: no_snippet_def)
  have b: "snippet empty_timestamp = None
           \<or> (\<exists>sn. snippet empty_timestamp = Some sn
                 \<and> (publishedAt sn = None \<or> publishedAt sn = Some []))"
    by (simp add: empty_timestamp_def mk_video_def)
  have r1: "filter_videos_by_time fromisoformat NOON ([at_boundary] @ [recent]) (Some 12)
              = (Inr [at_boundary, recent], [])"
    by code_simp
  have r2: "filter_videos_by_time fromisoformat NOON ([] @ [no_timestamp]) (Some 12)
              = (Inr [], [])"
    by code_simp
  from missing_timestamp_dropped_silently
         [OF a, where p = fromisoformat and now = NOON and xs = "[at_boundary]"
            and ys = "[recent]" and hours_opt = "Some 12"]
       missing_timestamp_dropped_silently
         [OF b, where p = fromisoformat and now = NOON and xs = "[]"
            and ys = "[no_timestamp]" and hours_opt = "Some 12"]
       r1 r2
  show ?thesis by (simp add: no_snippet_def)
qed

section \<open>The time filter: the zone designator\<close>

lemma rewrite_Z_suffix: "rewrite_Z (s @ ''Z'') = s @ ''+00:00''"
  by (simp add: rewrite_Z_def endswith_Z_def butlast_append)

lemma rewrite_Z_offset: "rewrite_Z (s @ ''+00:00'') = s @ ''+00:00''"
  by (simp add: rewrite_Z_def endswith_Z_def)

lemma filter_loop_single:
  "filter_loop p th [v] [] [] =
     (if naive_stamp p v then (Inl TypeError, [])
      else (Inr (if in_window p th v then [v] else []), diagnostics p v))"
  by (simp only: filter_loop_Cons filter_loop.simps(1)) simp

lemma filter_single:
  "filter_videos_by_time p now [v] hours_opt = (Inr res, printed) \<longleftrightarrow>
     (\<exists>d th. timedelta_hours (case hours_opt of None \<Rightarrow> HOURS_TO_FILTER | Some h \<Rightarrow> h) = Inr d
        \<and> datetime_sub now d = Inr th \<and> \<not> naive_stamp p v
        \<and> res = (if in_window p th v then [v] else []) \<and> printed = diagnostics p v)"
  by (auto simp: filter_videos_by_time_def filter_loop_single simp del: filter_loop.simps
           split: sum.splits)

text \<open>
  C8. An item whose timestamp ends in \<^verbatim>\<open>Z\<close> is treated as the item with
  \<^verbatim>\<open>+00:00\<close> in its place. For every parser and every threshold, what the loop does
  with an item stamped \<open>s\<close>\<^verbatim>\<open>Z\<close> is decided by the parse of \<open>s\<close>\<^verbatim>\<open>+00:00\<close>: a
  rejection is logged with that string, a zoneless result raises, an aware instant is
  compared with the threshold. So the item is in the window, has a naive stamp, is
  returned alone or dropped without a line exactly when an item stamped
  \<open>s\<close>\<^verbatim>\<open>+00:00\<close> is. The timestamp \<^verbatim>\<open>2024-01-01T00:00:00Z\<close> parses to the aware
  instant of midnight; an item carrying it, filtered with a window of 12 hours at
  2024-01-01T06:00:00Z, is the result of the filter, with nothing printed, also when
  it follows an item published at 17:59:59 of the day before, which is dropped.
\<close>

theorem trailing_Z_is_utc:
  assumes "get_publishedAt v = Some (s @ ''Z'')"
    and "get_publishedAt u = Some (s @ ''+00:00'')"
  shows "filter_loop p th (v # vs) acc out =
           (case p (s @ ''+00:00'') of
              Inl e \<Rightarrow> filter_loop p th vs acc (out @ [parse_error_line (s @ ''+00:00'') v e])
            | Inr (Naive t) \<Rightarrow> (Inl TypeError, out)
            | Inr (Aware t) \<Rightarrow>
                if th \<le> t then filter_loop p th vs (acc @ [v]) out
                else filter_loop p th vs acc out)
       \<and> in_window p th v = in_window p th u
       \<and> naive_stamp p v = naive_stamp p u
       \<and> (filter_videos_by_time p now [v] hours_opt = (Inr [v], []))
           = (filter_videos_by_time p now [u] hours_opt = (Inr [u], []))
       \<and> (filter_videos_by_time p now [v] hours_opt = (Inr [], []))
           = (filter_videos_by_time p now [u] hours_opt = (Inr [], []))
       \<and> fromisoformat (rewrite_Z ''2024-01-01T00:00:00Z'')
           = Inr (Aware (utc_instant 2024 1 1 0 0 0))
       \<and> filter_videos_by_time fromisoformat (utc_instant 2024 1 1 6 0 0)
            [\<lparr>snippet = Some \<lparr>title = t, publishedAt = Some ''2024-01-01T00:00:00Z''\<rparr>,
              video_id = i, other_fields = r\<rparr>] (Some 12)
           = (Inr [\<lparr>snippet = Some \<lparr>title = t, publishedAt = Some ''2024-01-01T00:00:00Z''\<rparr>,
                     video_id = i, other_fields = r\<rparr>], [])
       \<and> filter_videos_by_time fromisoformat (utc_instant 2024 1 1 6 0 0)
            [stale,
             \<lparr>snippet = Some \<lparr>title = t, publishedAt = Some ''2024-01-01T00:00:00Z''\<rparr>,
              video_id = i, other_fields = r\<rparr>] (Some 12)
           = (Inr [\<lparr>snippet = Some \<lparr>title = t, publishedAt = Some ''2024-01-01T00:00:00Z''\<rparr>,
                     video_id = i, other_fields = r\<rparr>], [])"
proof -
  let ?item = "\<lparr>snippet = Some \<lparr>title = t, publishedAt = Some ''2024-01-01T00:00:00Z''\<rparr>,
                video_id = i, other_fields = r\<rparr>"
  have step: "filter_loop p th (v # vs) acc out =
           (case p (s @ ''+00:00'') of
              Inl e \<Rightarrow> filter_loop p th vs acc (out @ [parse_error_line (s @ ''+00:00'') v e])
            | Inr (Naive t) \<Rightarrow> (Inl TypeError, out)
            | Inr (Aware t) \<Rightarrow>
                if th \<le> t then filter_loop p th vs (acc @ [v]) out
                else filter_loop p th vs acc out)"
    by (simp add: assms(1) rewrite_Z_suffix Let_def split: sum.splits datetime.splits)
  have w: "in_window p th' v = in_window p th' u" for th'
    by (simp add: in_window_def assms rewrite_Z_suffix rewrite_Z_offset)
  have n: "naive_stamp p v = naive_stamp p u"
    by (simp add: naive_stamp_def assms rewrite_Z_suffix rewrite_Z_offset)
  have d: "(diagnostics p v = []) = (diagnostics p u = [])"
    by (simp add: diagnostics_def assms rewrite_Z_suffix rewrite_Z_offset split: sum.splits)
  have kept: "(filter_videos_by_time p now [v] hours_opt = (Inr [v], []))
                = (filter_videos_by_time p now [u] hours_opt = (Inr [u], []))"
    unfolding filter_single using w n d by (auto split: if_splits)
  have dropped: "(filter_videos_by_time p now [v] hours_opt = (Inr [], []))
                   = (filter_videos_by_time p now [u] hours_opt = (Inr [], []))"
    unfolding filter_single using w n d by (auto split: if_splits)
  have parse: "fromisoformat (rewrite_Z ''2024-01-01T00:00:00Z'')
                 = Inr (Aware (utc_instant 2024 1 1 0 0 0))"
    by code_simp
  have delta: "timedelta_hours 12 = Inr (12 * US_PER_HOUR)"
    by code_simp
  have thr: "datetime_sub (utc_instant 2024 1 1 6 0 0) (12 * US_PER_HOUR)
              = Inr (utc_instant 2023 12 31 18 0 0)"
    by code_simp
  have le: "utc_instant 2023 12 31 18 0 0 \<le> utc_instant 2024 1 1 0 0 0"
    by code_simp
  have item_in: "in_window fromisoformat (utc_instant 2023 12 31 18 0 0) ?item"
    by (simp add: in_window_def get_publishedAt_def parse le)
  have item_quiet: "diagnostics fromisoformat ?item = []" "\<not> naive_stamp fromisoformat ?item"
    using in_window_quiet [OF item_in] by simp_all
  have stale_out: "\<not> in_window fromisoformat (utc_instant 2023 12 31 18 0 0) stale"
    "diagnostics fromisoformat stale = []" "\<not> naive_stamp fromisoformat stale"
    by code_simp+
  have run1: "filter_videos_by_time fromisoformat (utc_instant 2024 1 1 6 0 0) [?item] (Some 12)
                = (Inr [?item], [])"
    by (simp add: filter_videos_by_time_def delta thr filter_loop_Cons item_in item_quiet
             del: filter_loop.simps(2))
  have run2: "filter_videos_by_time fromisoformat (utc_instant 2024 1 1 6 0 0)
                [stale, ?item] (Some 12) = (Inr [?item], [])"
    by (simp add: filter_videos_by_time_def delta thr filter_loop_Cons item_in item_quiet
                  stale_out del: filter_loop.simps(2))
  from step w [of th] n kept dropped parse run1 run2 show ?thesis by blast
qed

text \<open>
  The theorem on the sample item published at midnight and on the same item written
  with the offset, at 06:00 with a window of 12 hours.
\<close>

theorem trailing_Z_is_utc_witness:
  "get_publishedAt at_boundary = Some (''2024-01-01T00:00:00'' @ ''Z'')
   \<and> get_publishedAt at_boundary_offset = Some (''2024-01-01T00:00:00'' @ ''+00:00'')
   \<and> in_window fromisoformat (utc_instant 2023 12 31 18 0 0) at_boundary_offset
   \<and> in_window fromisoformat (utc_instant 2023 12 31 18 0 0) at_boundary
   \<and> filter_videos_by_time fromisoformat (utc_instant 2024 1 1 6 0 0) [at_boundary_offset]
        (Some 12) = (Inr [at_boundary_offset], [])
   \<and> filter_videos_by_time fromisoformat (utc_instant 2024 1 1 6 0 0) [at_boundary]
        (Some 12) = (Inr [at_boundary], [])"
proof -
  have a: "get_publishedAt at_boundary = Some (''2024-01-01T00:00:00'' @ ''Z'')"
    by code_simp
  have b: "get_publishedAt at_boundary_offset = Some (''2024-01-01T00:00:00'' @ ''+00:00'')"
    by code_simp
  have c: "in_window fromisoformat (utc_instant 2023 12 31 18 0 0) at_boundary_offset"
    by code_simp
  have d: "filter_videos_by_time fromisoformat (utc_instant 2024 1 1 6 0 0)
             [at_boundary_offset] (Some 12) = (Inr [at_boundary_offset], [])"
    by code_simp
  from trailing_Z_is_utc
         [OF a b, where p = fromisoformat and th = "utc_instant 2023 12 31 18 0 0"
            and now = "utc_instant 2024 1 1 6 0 0" and hours_opt = "Some 12"]
       a b c d
  show ?thesis by simp
qed

section \<open>The fetcher\<close>

text \<open>
  C2. The \<^verbatim>\<open>except\<close> clause of \<^verbatim>\<open>fetch_popular_videos\<close> names \<^verbatim>\<open>HttpError\<close>.
  When the request fails in the transport, with the host not found, the exception is
  not caught: it leaves the fetcher, nothing is printed, and it leaves \<^verbatim>\<open>main\<close>
  as well.
\<close>

theorem transport_error_leaves_fetcher:
  "fetch_popular_videos unreachable_service DEFAULT_REGION_CODE MAX_RESULTS_TO_FETCH
     = (Inl ServerNotFoundError, [], [ExecuteCall DEFAULT_REGION_CODE MAX_RESULTS_TO_FETCH])
   \<and> main offline_world default_args
     = (Inl ServerNotFoundError, [],
        [BuildCall API_SERVICE_NAME API_VERSION ''secret'',
         ExecuteCall DEFAULT_REGION_CODE MAX_RESULTS_TO_FETCH])"
  by (simp add: fetch_popular_videos_def unreachable_service_def main_def
                get_youtube_service_def offline_world_def sample_world_def default_args_def)

text \<open>
  The two branches in general: an \<^verbatim>\<open>HttpError\<close> is reported and gives the empty
  list, any other exception of the request is raised.
\<close>

lemma http_error_is_swallowed:
  assumes "execute_request youtube region_code max_results = Inl (HttpError e)"
  shows "fetch_popular_videos youtube region_code max_results
           = (Inr [], [''An API error occurred: '' @ e], [ExecuteCall region_code max_results])"
  using assms by (simp add: fetch_popular_videos_def)

lemma other_error_is_raised:
  assumes "execute_request youtube region_code max_results = Inl ex"
    and "\<forall>e. ex \<noteq> HttpError e"
  shows "fetch_popular_videos youtube region_code max_results
           = (Inl ex, [], [ExecuteCall region_code max_results])"
  using assms by (cases ex) (simp_all add: fetch_popular_videos_def)

section \<open>The client builder\<close>

text \<open>
  C5. When the credential is absent or empty, \<^verbatim>\<open>get_youtube_service\<close> raises the
  \<^verbatim>\<open>ValueError\<close> before it calls \<^verbatim>\<open>build\<close>; \<^verbatim>\<open>main\<close> catches it, prints its
  message and returns, having made no call at all: neither \<^verbatim>\<open>build\<close> nor a request.
\<close>

theorem missing_key_stops_before_any_call:
  assumes "env_API_KEY w = None \<or> env_API_KEY w = Some []"
  shows "get_youtube_service w = (Inl (ValueError API_KEY_MISSING), [])
       \<and> main w a = (Inr (), [API_KEY_MISSING], [])"
  using assms by (auto simp: get_youtube_service_def main_def)

text \<open>The theorem in an environment without the variable and in one where it is empty.\<close>

theorem missing_key_stops_before_any_call_witness:
  "main keyless_world default_args = (Inr (), [API_KEY_MISSING], [])
   \<and> main empty_key_world default_args = (Inr (), [API_KEY_MISSING], [])
   \<and> get_youtube_service keyless_world = (Inl (ValueError API_KEY_MISSING), [])"
proof -
  have a: "env_API_KEY keyless_world = None \<or> env_API_KEY keyless_world = Some []"
    by (simp add: keyless_world_def)
  have b: "env_API_KEY empty_key_world = None \<or> env_API_KEY empty_key_world = Some []"
    by (simp add: empty_key_world_def)
  from missing_key_stops_before_any_call [OF a, of default_args]
       missing_key_stops_before_any_call [OF b, of default_args]
  show ?thesis by simp
qed

section \<open>The presenter: what it prints\<close>

lemma print_entries_nth:
  "print_entries i vs =
     concat (map (\<lambda>k. [str_int (int (i + k) + 1) @ ''. '' @ get_title (vs ! k),
                       ''   Link: https://www.youtube.com/watch?v='' @ get_id (vs ! k) @ NEWLINE])
               [0..<length vs])"
proof (induction vs arbitrary: i)
  case Nil
  then show ?case by simp
next
  case (Cons v vs)
  have "[0..<length (v # vs)] = 0 # map Suc [0..<length vs]"
    by (simp add: upt_conv_Cons map_Suc_upt del: upt_Suc)
  then show ?case
    by (simp add: Cons.IH [of "Suc i"] o_def del: upt_Suc)
qed

lemma slice_to_nonneg: "0 \<le> k \<Longrightarrow> slice_to xs k = take (nat k) xs"
  by (simp add: slice_to_def)

text \<open>
  C6, as the code has it. For a non-empty list and a display count that is not
  negative, \<^verbatim>\<open>display_videos\<close> prints a header stating \<open>n = min (len videos) count\<close>,
  the hours and the region, a rule of 80 dashes, and then for \<open>k = 0, \<dots>, n - 1\<close>, in
  this order, the rank \<open>k + 1\<close> with the title of the \<open>k\<close>-th item (\<^verbatim>\<open>No Title\<close> when
  it has none) and the link \<^verbatim>\<open>https://www.youtube.com/watch?v=\<close> followed by its id.
\<close>

theorem display_videos_prints_first_n:
  assumes "videos \<noteq> []" and "0 \<le> cnt"
  shows "display_videos videos cnt display_hours display_region =
           [NEWLINE @ ''Top '' @ str_int (min (int (length videos)) cnt)
              @ '' YouTube Videos from the Last '' @ str_int display_hours
              @ '' Hours (Region: '' @ display_region @ ''):'',
            replicate 80 (CHR ''-'')]
           @ concat (map (\<lambda>k. [str_int (int k + 1) @ ''. '' @ get_title (videos ! k),
                               ''   Link: https://www.youtube.com/watch?v=''
                                 @ get_id (videos ! k) @ NEWLINE])
                      [0..<nat (min (int (length videos)) cnt)])"
proof -
  let ?n = "min (int (length videos)) cnt"
  have n0: "0 \<le> ?n" using assms(2) by simp
  have len: "length (take (nat ?n) videos) = nat ?n"
    using assms(2) by (simp add: min_def)
  have "print_entries 0 (slice_to videos ?n) = print_entries 0 (take (nat ?n) videos)"
    by (simp only: slice_to_nonneg [OF n0])
  also have "\<dots> = concat (map (\<lambda>k. [str_int (int k + 1) @ ''. '' @ get_title (videos ! k),
                               ''   Link: https://www.youtube.com/watch?v=''
                                 @ get_id (videos ! k) @ NEWLINE])
                      [0..<nat ?n])"
    unfolding print_entries_nth [of 0 "take (nat ?n) videos"] len
    by (rule arg_cong [where f = concat], rule map_cong) simp_all
  finally show ?thesis
    using assms(1) by (simp add: display_videos_def header_line_def Let_def)
qed

text \<open>
  The theorem with a display count of 5 on three items, the second without a title:
  the header states 3 and three entries follow.
\<close>

theorem display_videos_prints_first_n_witness:
  "three_videos \<noteq> [] \<and> (0::int) \<le> 5
   \<and> display_videos three_videos 5 12 ''US'' =
       [NEWLINE @ ''Top 3 YouTube Videos from the Last 12 Hours (Region: US):'',
        replicate 80 (CHR ''-''),
        ''1. First'', ''   Link: https://www.youtube.com/watch?v=id1'' @ NEWLINE,
        ''2. No Title'', ''   Link: https://www.youtube.com/watch?v=id2'' @ NEWLINE,
        ''3. Third'', ''   Link: https://www.youtube.com/watch?v=id3'' @ NEWLINE]"
proof -
  have a: "three_videos \<noteq> []" by code_simp
  have b: "(0::int) \<le> 5" by simp
  have c: "[NEWLINE @ ''Top '' @ str_int (min (int (length three_videos)) 5)
              @ '' YouTube Videos from the Last '' @ str_int 12
              @ '' Hours (Region: '' @ ''US'' @ ''):'',
            replicate 80 (CHR ''-'')]
           @ concat (map (\<lambda>k. [str_int (int k + 1) @ ''. '' @ get_title (three_videos ! k),
                               ''   Link: https://www.youtube.com/watch?v=''
                                 @ get_id (three_videos ! k) @ NEWLINE])
                      [0..<nat (min (int (length three_videos)) 5)])
        = [NEWLINE @ ''Top 3 YouTube Videos from the Last 12 Hours (Region: US):'',
        replicate 80 (CHR ''-''),
        ''1. First'', ''   Link: https://www.youtube.com/watch?v=id1'' @ NEWLINE,
        ''2. No Title'', ''   Link: https://www.youtube.com/watch?v=id2'' @ NEWLINE,
        ''3. Third'', ''   Link: https://www.youtube.com/watch?v=id3'' @ NEWLINE]"
    by code_simp
  from display_videos_prints_first_n [OF a b, of 12 "''US''"] a b c show ?thesis
    by simp
qed

text \<open>
  A negative display count: \<open>n\<close> is the count itself and the slice \<^verbatim>\<open>videos[:n]\<close>
  counts from the end. With a count of \<open>-1\<close> on three items the header states \<open>-1\<close>
  and two entries are printed.
\<close>

theorem negative_count_prints_all_but_last:
  "display_videos three_videos (- 1) 12 ''US'' =
     [NEWLINE @ ''Top -1 YouTube Videos from the Last 12 Hours (Region: US):'',
      replicate 80 (CHR ''-''),
      ''1. First'', ''   Link: https://www.youtube.com/watch?v=id1'' @ NEWLINE,
      ''2. No Title'', ''   Link: https://www.youtube.com/watch?v=id2'' @ NEWLINE]
   \<and> min (int (length three_videos)) (- 1) = - 1"
  by code_simp

text \<open>
  C7. On the empty list \<^verbatim>\<open>display_videos\<close> prints one line, the no-results line,
  whatever the display count, the hours and the region are.
\<close>

theorem display_videos_empty:
  "display_videos [] cnt display_hours display_region
     = [''No videos found matching the criteria.'']"
  by (simp add: display_videos_def)

text \<open>The theorem with the default count and with a negative one.\<close>

theorem display_videos_empty_witness:
  "display_videos [] 5 12 ''US'' = [''No videos found matching the criteria.'']
   \<and> length (display_videos [] (- 3) 12 ''US'') = 1"
  using display_videos_empty [of 5 12 "''US''"] display_videos_empty [of "- 3" 12 "''US''"]
  by simp

section \<open>The orchestrator: the order of filtering and truncation\<close>

text \<open>
  C9. When the service is built, the fetch returns and the filter returns a non-empty
  list, \<^verbatim>\<open>main\<close> prints the lines of the fetch and of the filter and then what
  \<^verbatim>\<open>display_videos\<close> prints for the whole filtered list and the display count. The
  filtered list is the selection of the in-window items from the whole fetched list,
  and the request was made with the fetch cap: the display count plays no part
  before \<^verbatim>\<open>display_videos\<close>.
\<close>

theorem count_applied_after_filter:
  assumes "get_youtube_service w = (Inr (Some youtube), cs)"
    and "fetch_popular_videos youtube (arg_region a) (arg_fetch a) = (Inr fetched, out1, cs1)"
    and "filter_videos_by_time (env_fromisoformat w) (env_now w) fetched (Some (arg_hours a))
           = (Inr filtered, out2)"
    and "filtered \<noteq> []"
  shows "main w a =
           (Inr (),
            out1 @ out2 @ display_videos filtered (arg_count a) (arg_hours a) (arg_region a),
            cs @ cs1)
       \<and> filtered = filter (in_window (env_fromisoformat w)
                               (env_now w - arg_hours a * US_PER_HOUR)) fetched
       \<and> cs1 = [ExecuteCall (arg_region a) (arg_fetch a)]"
proof -
  have sel: "filtered = filter (in_window (env_fromisoformat w)
                                  (env_now w - arg_hours a * US_PER_HOUR)) fetched"
    by (rule filter_videos_by_time_Inr(1) [OF assms(3)])
  with assms(4) have ne: "fetched \<noteq> []" by auto
  have m: "main w a =
           (Inr (),
            out1 @ out2 @ display_videos filtered (arg_count a) (arg_hours a) (arg_region a),
            cs @ cs1)"
    using assms ne by (simp add: main_def)
  have c: "cs1 = [ExecuteCall (arg_region a) (arg_fetch a)]"
    using assms(2)
    by (auto simp: fetch_popular_videos_def split: sum.splits exn.splits)
  from m sel c show ?thesis by simp
qed

text \<open>
  The theorem with a display count of 1 on a fetched list whose first item is too old:
  the entry shown is the second fetched item. Truncating the fetched list to one item
  before filtering would have left nothing.
\<close>

theorem count_applied_after_filter_witness:
  "main sample_world one_shown =
     (Inr (),
      [NEWLINE @ ''Top 1 YouTube Videos from the Last 12 Hours (Region: US):'',
       replicate 80 (CHR ''-''),
       ''1. Boundary'', ''   Link: https://www.youtube.com/watch?v=v-boundary'' @ NEWLINE],
      [BuildCall ''youtube'' ''v3'' ''secret'', ExecuteCall ''US'' 25])
   \<and> filter_videos_by_time fromisoformat NOON (take 1 [too_old, at_boundary, recent]) (Some 12)
       = (Inr [], [])"
proof -
  have a1: "get_youtube_service sample_world
              = (Inr (Some sample_service), [BuildCall ''youtube'' ''v3'' ''secret''])"
    by (simp add: get_youtube_service_def sample_world_def API_SERVICE_NAME_def API_VERSION_def)
  have a2: "fetch_popular_videos sample_service (arg_region one_shown) (arg_fetch one_shown)
              = (Inr [too_old, at_boundary, recent], [], [ExecuteCall ''US'' 25])"
    by (simp add: fetch_popular_videos_def sample_service_def one_shown_def default_args_def
                  DEFAULT_REGION_CODE_def MAX_RESULTS_TO_FETCH_def)
  have a3: "filter_videos_by_time (env_fromisoformat sample_world) (env_now sample_world)
               [too_old, at_boundary, recent] (Some (arg_hours one_shown))
             = (Inr [at_boundary, recent], [])"
    by code_simp
  have a4: "[at_boundary, recent] \<noteq> []" by simp
  have shown: "display_videos [at_boundary, recent] (arg_count one_shown) (arg_hours one_shown)
                 (arg_region one_shown)
               = [NEWLINE @ ''Top 1 YouTube Videos from the Last 12 Hours (Region: US):'',
                  replicate 80 (CHR ''-''),
                  ''1. Boundary'',
                  ''   Link: https://www.youtube.com/watch?v=v-boundary'' @ NEWLINE]"
    by code_simp
  have before: "filter_videos_by_time fromisoformat NOON (take 1 [too_old, at_boundary, recent])
                  (Some 12) = (Inr [], [])"
    by code_simp
  from count_applied_after_filter [OF a1 a2 a3 a4] shown before show ?thesis
    by simp
qed

end
